theory Spec2Isabelle
  imports Main
begin

section \<open>JavaScript values as the fixtures and HTTP responses hold them\<close>

text \<open>
  Fixtures and response bodies are parsed JSON, so the values are \<open>null\<close>, booleans,
  numbers, strings, arrays and objects; \<open>undefined\<close> is what a read of a missing
  property gives. Numbers are the integer-valued ones (status codes, ids). An object is
  the list of its own properties; \<open>JBuiltin n\<close> stands for the member named \<open>n\<close> that a
  value inherits from a standard prototype (a built-in function, or the prototype object
  itself for \<open>__proto__\<close>); it is opaque: of its own members only the names that
  every function inherits are modelled.
\<close>

datatype jsval =
    JUndefined
  | JNull
  | JBool bool
  | JNum int
  | JStr string
  | JArr "jsval list"
  | JObj "(string \<times> jsval) list"
  | JBuiltin string

text \<open>What a body can throw: a TypeError of the language, an \<open>Error\<close> with its message,
  a failed assertion (with the label of the assertion) or a failure of the framework.\<close>

datatype js_error =
    TypeError
  | Error string
  | AssertionError string
  | CypressError string


fun typeof :: "jsval \<Rightarrow> string" where
  "typeof JUndefined = ''undefined''"
| "typeof JNull = ''object''"
| "typeof (JBool b) = ''boolean''"
| "typeof (JNum n) = ''number''"
| "typeof (JStr s) = ''string''"
| "typeof (JArr xs) = ''object''"
| "typeof (JObj ps) = ''object''"
| "typeof (JBuiltin n) = (if n = ''__proto__'' then ''object'' else ''function'')"

text \<open>The member names of the standard prototypes (ECMAScript 2023, with Annex B).\<close>

definition object_proto :: "string list" where
  "object_proto =
    [''constructor'', ''hasOwnProperty'', ''isPrototypeOf'', ''propertyIsEnumerable'',
     ''toLocaleString'', ''toString'', ''valueOf'', ''__defineGetter__'',
     ''__defineSetter__'', ''__lookupGetter__'', ''__lookupSetter__'', ''__proto__'']"

definition array_proto :: "string list" where
  "array_proto =
    [''at'', ''concat'', ''copyWithin'', ''entries'', ''every'', ''fill'', ''filter'',
     ''find'', ''findIndex'', ''findLast'', ''findLastIndex'', ''flat'', ''flatMap'',
     ''forEach'', ''includes'', ''indexOf'', ''join'', ''keys'', ''lastIndexOf'', ''map'',
     ''pop'', ''push'', ''reduce'', ''reduceRight'', ''reverse'', ''shift'', ''slice'',
     ''some'', ''sort'', ''splice'', ''toReversed'', ''toSorted'', ''toSpliced'',
     ''unshift'', ''values'', ''with'']"

definition string_proto :: "string list" where
  "string_proto =
    [''at'', ''charAt'', ''charCodeAt'', ''codePointAt'', ''concat'', ''endsWith'',
     ''includes'', ''indexOf'', ''isWellFormed'', ''lastIndexOf'', ''localeCompare'',
     ''match'', ''matchAll'', ''normalize'', ''padEnd'', ''padStart'', ''repeat'',
     ''replace'', ''replaceAll'', ''search'', ''slice'', ''split'', ''startsWith'',
     ''substring'', ''toLocaleLowerCase'', ''toLocaleUpperCase'', ''toLowerCase'',
     ''toUpperCase'', ''toWellFormed'', ''trim'', ''trimEnd'', ''trimStart'',
     ''substr'', ''anchor'', ''big'', ''blink'', ''bold'', ''fixed'', ''fontcolor'',
     ''fontsize'', ''italics'', ''link'', ''small'', ''strike'', ''sub'', ''sup'',
     ''trimLeft'', ''trimRight'']"

definition number_proto :: "string list" where
  "number_proto = [''toExponential'', ''toFixed'', ''toPrecision'']"

definition function_proto :: "string list" where
  "function_proto = [''apply'', ''bind'', ''call'', ''length'', ''name'']"

fun proto_names :: "jsval \<Rightarrow> string list" where
  "proto_names JUndefined = []"
| "proto_names JNull = []"
| "proto_names (JBool b) = object_proto"
| "proto_names (JNum n) = number_proto @ object_proto"
| "proto_names (JStr s) = string_proto @ object_proto"
| "proto_names (JArr xs) = array_proto @ object_proto"
| "proto_names (JObj ps) = object_proto"
| "proto_names (JBuiltin n) = function_proto @ object_proto"

text \<open>The canonical decimal spelling of an array index, as a property key.\<close>

fun digit_char :: "nat \<Rightarrow> char" where
  "digit_char d = char_of (48 + d)"

fun index_key_aux :: "nat \<Rightarrow> nat \<Rightarrow> string \<Rightarrow> string" where
  "index_key_aux 0 n acc = acc"
| "index_key_aux (Suc fuel) n acc =
     (if n < 10 then digit_char n # acc
      else index_key_aux fuel (n div 10) (digit_char (n mod 10) # acc))"

definition index_key :: "nat \<Rightarrow> string" where
  "index_key n = index_key_aux (Suc n) n []"

text \<open>The own properties of a value: an object's entries, the elements and the length
  of an array or a string.\<close>

fun own_property :: "jsval \<Rightarrow> string \<Rightarrow> jsval option" where
  "own_property (JObj ps) k = map_of ps k"
| "own_property (JArr xs) k =
     (if k = ''length'' then Some (JNum (int (length xs)))
      else map_option (\<lambda>i. xs ! i) (List.find (\<lambda>i. index_key i = k) [0..<length xs]))"
| "own_property (JStr s) k =
     (if k = ''length'' then Some (JNum (int (length s)))
      else map_option (\<lambda>i. JStr [s ! i]) (List.find (\<lambda>i. index_key i = k) [0..<length s]))"
| "own_property v k = None"

text \<open>
  The read \<open>v[k]\<close>: a TypeError on \<open>undefined\<close> and \<open>null\<close>; otherwise the own
  property, else the inherited member, else \<open>undefined\<close>.
\<close>

fun js_get :: "jsval \<Rightarrow> string \<Rightarrow> js_error + jsval" where
  "js_get JUndefined k = Inl TypeError"
| "js_get JNull k = Inl TypeError"
| "js_get v k =
     (case own_property v k of
        Some x \<Rightarrow> Inr x
      | None \<Rightarrow> if k \<in> set (proto_names v) then Inr (JBuiltin k) else Inr JUndefined)"

text \<open>\<open>k in Object(v)\<close> for a value that is neither \<open>undefined\<close> nor \<open>null\<close>.\<close>

definition js_in :: "string \<Rightarrow> jsval \<Rightarrow> bool" where
  "js_in k v = (own_property v k \<noteq> None \<or> k \<in> set (proto_names v))"

section \<open>Framework calls\<close>

text \<open>The options object handed to \<open>cy.request\<close> and the response it yields.\<close>

record request_options =
  http_method :: string
  url :: string
  payload :: "jsval option"
  failOnStatusCode :: bool

record response =
  status :: int
  body :: jsval

text \<open>
  A command body is a linear sequence of calls into the test framework. The model
  records the calls a body issues, in order, and the error it throws, if any: a throw
  ends the body, and the calls before it stay issued.
\<close>

datatype cy_call =
    Fixture string
  | Log string
  | Visit jsval
  | Get jsval
  | First
  | ShouldBeVisible
  | ShouldNotBeDisabled
  | Clear
  | Type jsval
  | TypeNoLog jsval
  | Click
  | Wrap jsval
  | As string
  | Request request_options
  | WrapResponse response

type_synonym 'a cy = "cy_call list \<Rightarrow> cy_call list \<times> (js_error + 'a)"

definition ret :: "'a \<Rightarrow> 'a cy" where
  "ret x = (\<lambda>t. (t, Inr x))"

definition throw :: "js_error \<Rightarrow> 'a cy" where
  "throw e = (\<lambda>t. (t, Inl e))"

definition issue :: "cy_call \<Rightarrow> unit cy" where
  "issue c = (\<lambda>t. (t @ [c], Inr ()))"

definition lift_js :: "js_error + 'a \<Rightarrow> 'a cy" where
  "lift_js r = (\<lambda>t. (t, r))"

definition bnd :: "'a cy \<Rightarrow> ('a \<Rightarrow> 'b cy) \<Rightarrow> 'b cy" where
  "bnd m f = (\<lambda>t. case m t of (t', Inl e) \<Rightarrow> (t', Inl e) | (t', Inr x) \<Rightarrow> f x t')"

definition seq :: "unit cy \<Rightarrow> 'b cy \<Rightarrow> 'b cy" where
  "seq m k = bnd m (\<lambda>_. k)"


definition run :: "'a cy \<Rightarrow> cy_call list \<times> (js_error + 'a)" where
  "run m = m []"


text \<open>The value of a read that cannot raise, for stating what a body passes on.\<close>

definition js_prop :: "jsval \<Rightarrow> string \<Rightarrow> jsval" where
  "js_prop v k = (case js_get v k of Inr x \<Rightarrow> x | Inl e \<Rightarrow> JUndefined)"

section \<open>The login command and the page object's fixture login\<close>

definition dq :: string where
  "dq = [CHR 0x22]"



















section \<open>HTTP requests and the API commands\<close>

text \<open>
  \<open>cy.request\<close>: the server either answers or does not. Without an answer the
  command fails; with \<open>failOnStatusCode\<close> set it also fails on a status outside 2xx and
  3xx; otherwise it yields the response.
\<close>

type_synonym server = "request_options \<Rightarrow> response option"

definition cy_request :: "server \<Rightarrow> request_options \<Rightarrow> response cy" where
  "cy_request srv opts =
     seq (issue (Request opts))
       (case srv opts of
          None \<Rightarrow> throw (CypressError ''cy.request() failed trying to load'')
        | Some r \<Rightarrow>
            if failOnStatusCode opts \<and> \<not> (200 \<le> status r \<and> status r < 400)
            then throw (CypressError ''cy.request() failed on status code'')
            else ret r)"

text \<open>A parameter default applies when the argument is \<open>undefined\<close>.\<close>

definition default_arg :: "jsval \<Rightarrow> jsval \<Rightarrow> jsval" where
  "default_arg v d = (if v = JUndefined then d else v)"

text \<open>\<open>expect(n).to.eq(v)\<close> for a number \<open>n\<close>: strict equality.\<close>

definition expect_num_eq :: "int \<Rightarrow> jsval \<Rightarrow> unit cy" where
  "expect_num_eq n v = (if v = JNum n then ret () else throw (AssertionError ''to.eq''))"

definition apiGetAndValidate :: "server \<Rightarrow> string \<Rightarrow> jsval \<Rightarrow> response cy" where
  "apiGetAndValidate srv u arg =
    (let expectedStatus = default_arg arg (JNum 200) in
     seq (issue (Log ''GET''))
    (bnd (cy_request srv
            \<lparr>http_method = ''GET'', url = u, payload = None, failOnStatusCode = False\<rparr>)
       (\<lambda>response.
     seq (expect_num_eq (status response) expectedStatus)
    (seq (issue (Log ''Status''))
    (seq (issue (WrapResponse response))
         (ret response))))))"

definition apiPostAndValidate :: "server \<Rightarrow> string \<Rightarrow> jsval \<Rightarrow> jsval \<Rightarrow> response cy" where
  "apiPostAndValidate srv u b arg =
    (let expectedStatus = default_arg arg (JNum 201) in
     seq (issue (Log ''POST''))
    (bnd (cy_request srv
            \<lparr>http_method = ''POST'', url = u, payload = Some b, failOnStatusCode = False\<rparr>)
       (\<lambda>response.
     seq (expect_num_eq (status response) expectedStatus)
    (seq (issue (Log ''Status''))
    (seq (issue (WrapResponse response))
         (ret response))))))"

text \<open>The requests a body issued, and a server that knows one resource.\<close>

definition requests :: "cy_call list \<Rightarrow> request_options list" where
  "requests t = concat (map (\<lambda>c. case c of Request r \<Rightarrow> [r] | _ \<Rightarrow> []) t)"

definition sample_server :: server where
  "sample_server opts =
     (if url opts = ''/api/users''
      then Some \<lparr>status = (if http_method opts = ''POST'' then 201 else 200), body = JArr []\<rparr>
      else if url opts = ''/api/missing''
      then Some \<lparr>status = 404, body = JObj []\<rparr>
      else None)"

section \<open>Schema validation of a response\<close>

text \<open>
  The schema object \<open>{ requiredFields: [...], types: {...} }\<close>: either member may be
  absent (\<open>None\<close>), and \<open>types\<close> is given by its entries, in the order
  \<open>Object.entries\<close> lists them.
\<close>

record schema =
  requiredFields :: "string list option"
  types :: "(string \<times> jsval) list option"

text \<open>\<open>Array.isArray(data) ? data[0] : data\<close>\<close>

fun item_to_validate :: "jsval \<Rightarrow> jsval" where
  "item_to_validate (JArr []) = JUndefined"
| "item_to_validate (JArr (x # xs)) = x"
| "item_to_validate v = v"

text \<open>\<open>expect(item, msg).to.have.property(field)\<close>: the assertion fails on a target
  that is \<open>null\<close> or \<open>undefined\<close>, and otherwise asks \<open>field in Object(item)\<close>.\<close>

definition expect_have_property :: "jsval \<Rightarrow> string \<Rightarrow> string \<Rightarrow> unit cy" where
  "expect_have_property item field msg =
     (if item = JUndefined \<or> item = JNull then throw (AssertionError msg)
      else if js_in field item then ret ()
      else throw (AssertionError msg))"

definition required_field :: "jsval \<Rightarrow> string \<Rightarrow> unit cy" where
  "required_field item field =
     expect_have_property item field (''Required field '' @ dq @ field @ dq)"

text \<open>\<open>expect(s, msg).to.eq(v)\<close> for a string \<open>s\<close>: strict equality.\<close>

definition expect_str_eq :: "string \<Rightarrow> jsval \<Rightarrow> string \<Rightarrow> unit cy" where
  "expect_str_eq s v msg = (if v = JStr s then ret () else throw (AssertionError msg))"

definition check_type :: "jsval \<Rightarrow> string \<times> jsval \<Rightarrow> unit cy" where
  "check_type item entry =
     (case entry of (field, expectedType) \<Rightarrow>
        bnd (lift_js (js_get item field)) (\<lambda>v.
          if v \<noteq> JUndefined
          then expect_str_eq (typeof v) expectedType (''Field '' @ dq @ field @ dq @ '' type'')
          else ret ()))"

fun for_each :: "('a \<Rightarrow> unit cy) \<Rightarrow> 'a list \<Rightarrow> unit cy" where
  "for_each f [] = ret ()"
| "for_each f (x # xs) = seq (f x) (for_each f xs)"

definition validateSchema :: "response \<Rightarrow> schema \<Rightarrow> response cy" where
  "validateSchema response sch =
    (let required = (case requiredFields sch of None \<Rightarrow> [] | Some fs \<Rightarrow> fs);
         tys = (case types sch of None \<Rightarrow> [] | Some es \<Rightarrow> es);
         data = body response
     in
     seq (issue (Log ''Validating Response Schema''))
    (let itemToValidate = item_to_validate data in
     seq (for_each (required_field itemToValidate) required)
    (seq (for_each (check_type itemToValidate) tys)
    (seq (issue (Log ''Schema validation passed''))
    (seq (issue (WrapResponse response))
         (ret response))))))"

text \<open>What a body ends with: the error it throws, or nothing.\<close>

definition thrown :: "'a cy \<Rightarrow> js_error option" where
  "thrown m = (case snd (run m) of Inl e \<Rightarrow> Some e | Inr x \<Rightarrow> None)"

definition post_schema :: schema where
  "post_schema =
     \<lparr>requiredFields = Some [''id'', ''title''],
      types = Some [(''id'', JStr ''number''), (''title'', JStr ''string''),
                    (''views'', JStr ''number'')]\<rparr>"

definition good_post :: jsval where
  "good_post = JObj [(''id'', JNum 1), (''title'', JStr ''sunt aut facere'')]"

definition bad_post :: jsval where
  "bad_post = JObj [(''id'', JStr ''one'')]"

definition mistyped_post :: jsval where
  "mistyped_post = JObj [(''id'', JStr ''one''), (''title'', JStr ''qui est esse'')]"

section \<open>Registration of the custom commands\<close>

text \<open>
  A registration \<open>Cypress.Commands.add(name, fn)\<close> of the support file, by the line it
  stands on and the parameters of \<open>fn\<close>. The registry maps a name to its definition;
  adding a custom name that is already registered replaces the definition.
\<close>

record command_def =
  source_line :: nat
  parameters :: "string list"

type_synonym registry = "string \<rightharpoonup> command_def"

definition Commands_add :: "registry \<Rightarrow> string \<times> command_def \<Rightarrow> registry" where
  "Commands_add reg entry = reg(fst entry \<mapsto> snd entry)"

definition load_support :: "(string \<times> command_def) list \<Rightarrow> registry" where
  "load_support entries = foldl Commands_add Map.empty entries"

definition registered_twice :: "(string \<times> command_def) list \<Rightarrow> string list" where
  "registered_twice entries =
     (let names = map fst entries in remdups (filter (\<lambda>n. 1 < count_list names n) names))"

text \<open>The registrations of the command library, in file order.\<close>

definition support_file :: "(string \<times> command_def) list" where
  "support_file =
     [(''login'', \<lparr>source_line = 58, parameters = [''userType'']\<rparr>),
      (''verifyLoginSuccess'', \<lparr>source_line = 104, parameters = []\<rparr>),
      (''verifyLoginError'', \<lparr>source_line = 128, parameters = [''expectedError'']\<rparr>),
      (''fillForm'', \<lparr>source_line = 151, parameters = [''formData'']\<rparr>),
      (''apiLogin'', \<lparr>source_line = 174, parameters = [''userType'']\<rparr>),
      (''shouldBeVisibleAndContain'', \<lparr>source_line = 203, parameters = [''subject'', ''text'']\<rparr>),
      (''typeAndVerify'', \<lparr>source_line = 219, parameters = [''subject'', ''text'']\<rparr>),
      (''clickAndWait'', \<lparr>source_line = 236, parameters = [''subject'', ''alias'']\<rparr>),
      (''forceClick'', \<lparr>source_line = 258, parameters = [''subject'']\<rparr>),
      (''takeScreenshotWithLabel'', \<lparr>source_line = 277, parameters = [''subject'', ''name'']\<rparr>),
      (''withTimeout'', \<lparr>source_line = 297, parameters = [''subject'', ''ms'']\<rparr>),
      (''clearAllData'', \<lparr>source_line = 315, parameters = []\<rparr>),
      (''logTestInfo'', \<lparr>source_line = 334, parameters = [''testName'', ''description'']\<rparr>),
      (''waitForElementToDisappear'', \<lparr>source_line = 350, parameters = [''selector'', ''timeout'']\<rparr>),
      (''getRandomItem'', \<lparr>source_line = 364, parameters = [''array'']\<rparr>),
      (''checkLink'', \<lparr>source_line = 379, parameters = [''subject'', ''expectedHref'', ''shouldVisit'']\<rparr>),
      (''apiGetAndValidate'', \<lparr>source_line = 407, parameters = [''url'', ''expectedStatus'']\<rparr>),
      (''apiPostAndValidate'', \<lparr>source_line = 429, parameters = [''url'', ''body'', ''expectedStatus'']\<rparr>),
      (''apiRequest'', \<lparr>source_line = 478, parameters = [''options'']\<rparr>),
      (''apiLogin'', \<lparr>source_line = 536, parameters = [''email'', ''password'', ''authEndpoint'']\<rparr>),
      (''apiAuthRequest'', \<lparr>source_line = 566, parameters = [''options'']\<rparr>),
      (''validateSchema'', \<lparr>source_line = 604, parameters = [''response'', ''schema'']\<rparr>),
      (''validateHeaders'', \<lparr>source_line = 640, parameters = [''response'', ''expectedHeaders'']\<rparr>),
      (''apiCreate'', \<lparr>source_line = 659, parameters = [''url'', ''data'', ''headers'']\<rparr>),
      (''apiRead'', \<lparr>source_line = 670, parameters = [''url'', ''queryParams'', ''headers'']\<rparr>),
      (''apiUpdate'', \<lparr>source_line = 681, parameters = [''url'', ''data'', ''headers'']\<rparr>),
      (''apiPatch'', \<lparr>source_line = 692, parameters = [''url'', ''data'', ''headers'']\<rparr>),
      (''apiDelete'', \<lparr>source_line = 703, parameters = [''url'', ''headers'']\<rparr>),
      (''getIframeBody'', \<lparr>source_line = 738, parameters = [''iframeSelector'']\<rparr>),
      (''getIframeDocument'', \<lparr>source_line = 755, parameters = [''iframeSelector'']\<rparr>),
      (''typeInTinyMce'', \<lparr>source_line = 770, parameters = [''iframeSelector'', ''text'']\<rparr>),
      (''typeInIframe'', \<lparr>source_line = 794, parameters = [''iframeSelector'', ''elementSelector'', ''text'']\<rparr>),
      (''clickInIframe'', \<lparr>source_line = 811, parameters = [''iframeSelector'', ''elementSelector'']\<rparr>),
      (''uploadFile'', \<lparr>source_line = 828, parameters = [''selector'', ''filePath'', ''mimeType'']\<rparr>),
      (''verifyDownload'', \<lparr>source_line = 855, parameters = [''fileName'']\<rparr>),
      (''interceptAndMock'', \<lparr>source_line = 878, parameters = [''method'', ''url'', ''response'', ''alias'', ''statusCode'', ''delay'']\<rparr>),
      (''waitForApi'', \<lparr>source_line = 910, parameters = [''alias'', ''expectedStatus'']\<rparr>),
      (''uploadFile'', \<lparr>source_line = 939, parameters = [''selector'', ''fileName'']\<rparr>),
      (''verifyDownloadedFile'', \<lparr>source_line = 952, parameters = [''fileName'', ''expectedContent'', ''timeout'']\<rparr>),
      (''clearDownloadsFolder'', \<lparr>source_line = 971, parameters = []\<rparr>),
      (''getEnvVariable'', \<lparr>source_line = 991, parameters = [''varName'', ''defaultValue'']\<rparr>),
      (''verifyEnvVariable'', \<lparr>source_line = 1008, parameters = [''varName'', ''expectedValue'']\<rparr>),
      (''checkFeatureFlag'', \<lparr>source_line = 1020, parameters = [''flagName'']\<rparr>),
      (''logEnvironmentInfo'', \<lparr>source_line = 1031, parameters = []\<rparr>),
      (''makeApiRequest'', \<lparr>source_line = 1051, parameters = [''endpoint'', ''method'', ''body'']\<rparr>)]"

section \<open>The file-system tasks of the configuration\<close>

text \<open>
  The file system as the tasks see it: each path (the list of its components, from the
  root) names a regular file, a directory, a special file (a socket, a pipe, a device) or
  a symbolic link, which holds the path it points to. \<open>path.join(dir, name)\<close> appends a
  component. Every node can be read and removed: access rights are not part of the
  model. \<open>readdirSync\<close> lists the entries in the order the file system holds them.
\<close>

type_synonym path = "string list"








definition child_of :: "path \<Rightarrow> path \<Rightarrow> bool" where
  "child_of dir q = (q \<noteq> [] \<and> butlast q = dir)"




definition path_join :: "path \<Rightarrow> string \<Rightarrow> path" where
  "path_join dir name = dir @ [name]"








section \<open>The hook demonstrations over the public API\<close>




































section \<open>Access to the body of an iframe\<close>

text \<open>
  A document is given by its body; an element has an id, child nodes and, when it is an
  iframe whose content is reachable, a content document. The selector engine is a
  parameter: \<open>m sel e\<close> says whether the element \<open>e\<close> matches the selector \<open>sel\<close>.
\<close>

datatype element =
    Element (attr_id: string) (children: "element list") (contentDocument: "document option")
and document =
    Document (doc_body: "element option")

type_synonym matcher = "string \<Rightarrow> element \<Rightarrow> bool"

fun descendants :: "element \<Rightarrow> element list" where
  "descendants (Element i cs d) = concat (map (\<lambda>c. c # descendants c) cs)"

text \<open>\<open>cy.get(sel)\<close> on one state of the page: the matching elements, in document order.\<close>

definition cy_get :: "matcher \<Rightarrow> document \<Rightarrow> string \<Rightarrow> element list" where
  "cy_get m doc sel =
     (case doc_body doc of None \<Rightarrow> [] | Some b \<Rightarrow> filter (m sel) (b # descendants b))"

datatype 'a attempt = Yields 'a | Retries

text \<open>
  One attempt of the chain \<open>cy.get(sel).its('0.contentDocument.body').should('not.be.empty')\<close>:
  \<open>get\<close> needs a match, \<open>its\<close> needs every property of the path to be there, and the
  assertion needs the body to have a child node.
\<close>

definition iframe_body_attempt :: "matcher \<Rightarrow> string \<Rightarrow> document \<Rightarrow> element attempt" where
  "iframe_body_attempt m sel doc =
     (case cy_get m doc sel of
        [] \<Rightarrow> Retries
      | e # es \<Rightarrow>
          (case contentDocument e of
             None \<Rightarrow> Retries
           | Some d \<Rightarrow>
               (case doc_body d of
                  None \<Rightarrow> Retries
                | Some b \<Rightarrow> if children b = [] then Retries else Yields b)))"

text \<open>
  The framework retries the chain on the states the page goes through until the command
  times out: \<open>pages\<close> lists the states the attempts see, in order.
\<close>

fun retry :: "(document \<Rightarrow> 'a attempt) \<Rightarrow> document list \<Rightarrow> js_error + 'a" where
  "retry f [] = Inl (CypressError ''Timed out retrying'')"
| "retry f (d # ds) = (case f d of Yields x \<Rightarrow> Inr x | Retries \<Rightarrow> retry f ds)"






section \<open>The CI definitions\<close>

text \<open>
  The Jenkins pipelines and the batch script as data. A command line is kept by what it
  runs; \<open>cypress run\<close> keeps its flags with their arguments as written. A condition
  is a test of the file system (\<open>[ -f f ]\<close>, \<open>[ -d d ]\<close>, \<open>fileExists\<close>, \<open>if exist\<close>,
  a listing of a pattern used as a test), the platform test \<open>isUnix()\<close>, a test of a
  build parameter, the exit status of a command (\<open>a || b\<close> runs \<open>b\<close> when \<open>a\<close>
  fails), a conjunction of two of these (\<open>a && b\<close>, where \<open>b\<close> is looked at when \<open>a\<close>
  holds), or the outcome of the build, which the sections \<open>success\<close> and \<open>failure\<close> of
  \<open>post\<close> test. Windows paths are written with forward slashes.
\<close>

datatype command =
    NpmCi
  | NpmInstall
  | NpmInstallDev string
  | NpmLs string
  | CypressVerify
  | CypressRun "(string \<times> string) list"
  | MochawesomeMerge string string
  | Marge string string
  | Other string

datatype condition =
    FileExists string
  | DirExists string
  | PathExists string
  | GlobExists string
  | IsUnix
  | ParamEquals string string
  | ParamNonBlank string
  | Both condition condition
  | ExitOk command
  | BuildSucceeded
  | BuildFailed

datatype step =
    Run command
  | Sh "step list"
  | Bat "step list"
  | Echo string
  | CheckoutScm
  | IfElse condition "step list" "step list"
  | Assign string string
  | ArchiveArtifacts string
  | PublishHTML string

record stage =
  stage_name :: string
  steps :: "step list"

record pipeline =
  stages :: "stage list"
  post_always :: "step list"
  post_success :: "step list"
  post_failure :: "step list"

definition set_opts :: step where
  "set_opts = Run (Other ''set -euxo pipefail'')"

text \<open>The pipeline on the docker agent (\<open>Jenkinsfile\<close>). In its diagnostic stage a line
  \<open>[ -d cypress ] && ls -la cypress || true\<close> runs \<open>true\<close> when the directory is
  missing or the listing fails.\<close>

definition docker_pipeline :: pipeline where
  "docker_pipeline =
    \<lparr>stages =
      [\<lparr>stage_name = ''Checkout'', steps = [CheckoutScm]\<rparr>,
       \<lparr>stage_name = ''Install Dependencies'',
        steps = [Sh [set_opts,
                     IfElse (FileExists ''package-lock.json'') [Run NpmCi] [Run NpmInstall]]]\<rparr>,
       \<lparr>stage_name = ''Run Cypress (Headless + JSON reports)'',
        steps = [Sh [set_opts,
                     Run (CypressRun
                       [(''--config'', ''baseUrl=${BASE_URL},video=true''),
                        (''--reporter'', ''mochawesome''),
                        (''--reporter-options'',
                         ''html=false,json=true,reportDir=cypress/reports'')])]]\<rparr>,
       \<lparr>stage_name = ''Merge & Generate HTML (Mochawesome)'',
        steps = [Sh [set_opts,
                     IfElse (GlobExists ''cypress/reports/*.json'')
                       [Run (MochawesomeMerge ''cypress/reports/*.json''
                               ''cypress/reports/merged.json''),
                        Run (Marge ''cypress/reports/merged.json'' ''cypress/reports'')]
                       [Run (Other ''echo No Mochawesome JSON reports found to merge.'')]]]\<rparr>,
       \<lparr>stage_name = ''Diagnostics (list files)'',
        steps = [Sh [Run (Other ''echo Workspace''),
                     Run (Other ''echo Tree under cypress/''),
                     IfElse (Both (DirExists ''cypress'') (ExitOk (Other ''ls -la cypress'')))
                       [] [Run (Other ''true'')],
                     IfElse (Both (DirExists ''cypress'')
                               (ExitOk (Other ''find cypress -maxdepth 3 -type f -print'')))
                       [] [Run (Other ''true'')]]]\<rparr>,
       \<lparr>stage_name = ''Publish Reports & Artifacts'',
        steps = [IfElse (FileExists ''cypress/reports/mochawesome.html'')
                   [PublishHTML ''mochawesome.html'']
                   [Echo ''No mochawesome.html found to publish.''],
                 ArchiveArtifacts ''cypress/videos/**'',
                 ArchiveArtifacts ''cypress/screenshots/**'',
                 ArchiveArtifacts ''cypress/reports/**'']\<rparr>],
     post_always = [Echo ''Build finished; artifacts uploaded.''],
     post_success = [Echo ''Cypress pipeline succeeded.''],
     post_failure = [Echo ''Cypress pipeline failed. Check reports/videos.'']\<rparr>"

text \<open>The stages and the post section that the two pipelines on the NodeJS tool share.\<close>

definition on_platform :: "command \<Rightarrow> step" where
  "on_platform c = IfElse IsUnix [Sh [Run c]] [Bat [Run c]]"

definition checkout_stage :: stage where
  "checkout_stage =
     \<lparr>stage_name = ''Checkout'', steps = [Echo ''Checking out source code...'', CheckoutScm]\<rparr>"

definition install_stage :: stage where
  "install_stage =
     \<lparr>stage_name = ''Install Dependencies'',
      steps = [Echo ''Installing npm dependencies...'',
               IfElse IsUnix
                 [Sh [IfElse (ExitOk NpmCi) [] [Run NpmInstall]]]
                 [Bat [IfElse (ExitOk NpmCi) [] [Run NpmInstall]]]]\<rparr>"

definition verify_stage :: stage where
  "verify_stage =
     \<lparr>stage_name = ''Verify Cypress'',
      steps = [Echo ''Verifying Cypress installation...'', on_platform CypressVerify]\<rparr>"

definition archive_post :: "step list" where
  "archive_post =
     [Echo ''Archiving test artifacts...'',
      ArchiveArtifacts ''cypress/videos/**/*.mp4'',
      ArchiveArtifacts ''cypress/screenshots/**/*.png'',
      ArchiveArtifacts ''cypress/reports/**/*'']"

definition reporter_flags :: "(string \<times> string) list" where
  "reporter_flags =
     [(''--reporter'', ''mochawesome''),
      (''--reporter-options'',
       ''reportDir=cypress/reports/mochawesome,overwrite=false,html=true,json=true'')]"

text \<open>The pipeline with the stage for the Day 4 tests (second file of \<open>Jenkinsfile\<close>).\<close>

definition day4_pipeline :: pipeline where
  "day4_pipeline =
    \<lparr>stages =
      [checkout_stage, install_stage, verify_stage,
       \<lparr>stage_name = ''Run Cypress Tests'',
        steps = [Echo ''Running Cypress tests...'', on_platform (CypressRun reporter_flags)]\<rparr>,
       \<lparr>stage_name = ''Run Day 4 Tests Only'',
        steps = [Echo ''Running Day 4 CI/CD demo tests...'',
                 on_platform (CypressRun [(''--spec'', ''cypress/e2e/Day4/*.cy.js'')])]\<rparr>],
     post_always = archive_post,
     post_success = [Echo ''All Cypress tests passed successfully!''],
     post_failure = [Echo ''Some tests failed. Check the reports and screenshots.'']\<rparr>"

text \<open>The pipeline with the build parameters \<open>SPEC_FILE\<close> and \<open>CUSTOM_SPECS\<close>.\<close>

definition param_pipeline :: pipeline where
  "param_pipeline =
    \<lparr>stages =
      [checkout_stage, install_stage, verify_stage,
       \<lparr>stage_name = ''Run Cypress Tests'',
        steps = [Assign ''specsToRun'' ''params.SPEC_FILE'',
                 IfElse (Both (ParamEquals ''SPEC_FILE'' ''CUSTOM'') (ParamNonBlank ''CUSTOM_SPECS''))
                   [Assign ''specsToRun'' ''params.CUSTOM_SPECS''] [],
                 Echo ''Running Cypress tests: ${specsToRun}'',
                 on_platform (CypressRun ((''--spec'', ''${specsToRun}'') # reporter_flags))]\<rparr>],
     post_always = archive_post,
     post_success = [Echo ''All Cypress tests passed successfully!''],
     post_failure = [Echo ''Some tests failed. Check the reports and screenshots.'']\<rparr>"

text \<open>The Windows batch script.\<close>

definition batch_script :: "step list" where
  "batch_script =
     [Run (Other ''echo === START Install/Run/Report ===''),
      Run (Other ''echo === Node and NPM versions ===''),
      Run (Other ''node -v''),
      Run (Other ''npm -v''),
      IfElse (PathExists ''package-lock.json'')
        [Run (Other ''echo Found package-lock.json > running npm ci''), Run NpmCi]
        [Run (Other ''echo No package-lock.json > running npm install''), Run NpmInstall],
      IfElse (ExitOk (NpmLs ''mochawesome'')) [] [Run (NpmInstallDev ''mochawesome'')],
      IfElse (ExitOk (NpmLs ''mochawesome-merge'')) [] [Run (NpmInstallDev ''mochawesome-merge'')],
      IfElse (ExitOk (NpmLs ''mochawesome-report-generator'')) []
        [Run (NpmInstallDev ''mochawesome-report-generator'')],
      Run (CypressRun
        [(''--config'', ''baseUrl=https://example.com,video=true''),
         (''--reporter'', ''mochawesome''),
         (''--reporter-options'', ''html=false,json=true,reportDir=cypress/reports'')]),
      IfElse (GlobExists ''cypress/reports/*.json'')
        [Run (MochawesomeMerge ''cypress/reports/*.json'' ''cypress/reports/merged.json''),
         Run (Marge ''cypress/reports/merged.json'' ''cypress/reports'')]
        [Run (Other ''echo No Mochawesome JSON reports found to merge.'')],
      Run (Other ''echo Workspace: %cd%''),
      IfElse (PathExists ''cypress'')
        [Run (Other ''echo === File tree under cypress ===''), Run (Other ''dir cypress /s /b'')]
        [Run (Other ''echo No cypress folder found in workspace.'')],
      Run (Other ''mkdir cypress/reports''),
      Run (Other ''echo dummy > cypress/reports/_dummy.txt''),
      Run (Other ''echo === END Install/Run/Report ==='')]"

text \<open>The command lines a step can run, a test of an exit status included.\<close>

fun condition_commands :: "condition \<Rightarrow> command list" where
  "condition_commands (ExitOk c) = [c]"
| "condition_commands (Both a b) = condition_commands a @ condition_commands b"
| "condition_commands c = []"

fun commands :: "step \<Rightarrow> command list" where
  "commands (Run c) = [c]"
| "commands (Sh ss) = concat (map commands ss)"
| "commands (Bat ss) = concat (map commands ss)"
| "commands (IfElse c ss ts) =
     condition_commands c @ concat (map commands ss) @ concat (map commands ts)"
| "commands s = []"

text \<open>The conditions a step branches on.\<close>

fun conditions :: "step \<Rightarrow> condition list" where
  "conditions (Sh ss) = concat (map conditions ss)"
| "conditions (Bat ss) = concat (map conditions ss)"
| "conditions (IfElse c ss ts) =
     c # concat (map conditions ss) @ concat (map conditions ts)"
| "conditions s = []"

fun is_existence_check :: "condition \<Rightarrow> bool" where
  "is_existence_check (FileExists f) = True"
| "is_existence_check (DirExists d) = True"
| "is_existence_check (PathExists p) = True"
| "is_existence_check (GlobExists g) = True"
| "is_existence_check (Both a b) = (is_existence_check a \<and> is_existence_check b)"
| "is_existence_check c = False"

text \<open>The steps of a pipeline: those of its stages, then the sections of \<open>post\<close>, of
  which \<open>success\<close> and \<open>failure\<close> run by the outcome of the build.\<close>

definition pipeline_steps :: "pipeline \<Rightarrow> step list" where
  "pipeline_steps p =
     concat (map steps (stages p)) @ post_always p @
     [IfElse BuildSucceeded (post_success p) [], IfElse BuildFailed (post_failure p) []]"

definition pipeline_conditions :: "pipeline \<Rightarrow> condition list" where
  "pipeline_conditions p = concat (map conditions (pipeline_steps p))"

text \<open>The conditions of each stage, with the name of the stage.\<close>

definition stage_conditions :: "pipeline \<Rightarrow> (string \<times> condition list) list" where
  "stage_conditions p =
     map (\<lambda>st. (stage_name st, concat (map conditions (steps st)))) (stages p)"

text \<open>The condition that guards a run of the command \<open>c\<close>, when a branch on it exists.\<close>

fun deciding :: "command \<Rightarrow> step \<Rightarrow> condition list" where
  "deciding c (Sh ss) = concat (map (deciding c) ss)"
| "deciding c (Bat ss) = concat (map (deciding c) ss)"
| "deciding c (IfElse b ss ts) =
     (if c \<in> set (condition_commands b) \<or> Run c \<in> set ss \<or> Run c \<in> set ts then [b] else [])
     @ concat (map (deciding c) ss) @ concat (map (deciding c) ts)"
| "deciding c s = []"

definition stage_named :: "pipeline \<Rightarrow> string \<Rightarrow> step list" where
  "stage_named p n = concat (map steps (filter (\<lambda>st. stage_name st = n) (stages p)))"

text \<open>The flags of each \<open>cypress run\<close> command line.\<close>

fun run_flags :: "command \<Rightarrow> string list list" where
  "run_flags (CypressRun fs) = [map fst fs]"
| "run_flags c = []"

definition invocations :: "step list \<Rightarrow> string list list" where
  "invocations ss = concat (map run_flags (concat (map commands ss)))"

text \<open>What a stage is for, read off the commands and steps it runs.\<close>

datatype activity = Checkout | Install | Verify | RunTests | Report | Archive

fun command_activity :: "command \<Rightarrow> activity list" where
  "command_activity NpmCi = [Install]"
| "command_activity NpmInstall = [Install]"
| "command_activity (NpmInstallDev p) = [Install]"
| "command_activity CypressVerify = [Verify]"
| "command_activity (CypressRun fs) = [RunTests]"
| "command_activity (MochawesomeMerge a b) = [Report]"
| "command_activity (Marge a b) = [Report]"
| "command_activity c = []"

fun step_activity :: "step \<Rightarrow> activity list" where
  "step_activity CheckoutScm = [Checkout]"
| "step_activity (ArchiveArtifacts a) = [Archive]"
| "step_activity (PublishHTML h) = [Report]"
| "step_activity (Run c) = command_activity c"
| "step_activity (Sh ss) = concat (map step_activity ss)"
| "step_activity (Bat ss) = concat (map step_activity ss)"
| "step_activity (IfElse c ss ts) =
     concat (map command_activity (condition_commands c))
     @ concat (map step_activity ss) @ concat (map step_activity ts)"
| "step_activity s = []"

definition activities :: "step list \<Rightarrow> activity list" where
  "activities ss = remdups_adj (concat (map step_activity ss))"

definition stage_activities :: "pipeline \<Rightarrow> activity list list" where
  "stage_activities p = map (\<lambda>st. activities (steps st)) (stages p)"

definition pipeline_activities :: "pipeline \<Rightarrow> activity list" where
  "pipeline_activities p = concat (stage_activities p) @ activities (post_always p)"

fun rank :: "activity \<Rightarrow> nat" where
  "rank Checkout = 0"
| "rank Install = 1"
| "rank Verify = 2"
| "rank RunTests = 3"
| "rank Report = 4"
| "rank Archive = 5"

text \<open>
  The choice of the spec files in the run stage of the parameterised pipeline:
  \<open>params.SPEC_FILE\<close>, unless that is \<open>CUSTOM\<close> and \<open>params.CUSTOM_SPECS\<close>, trimmed,
  is a non-empty string. A parameter that is not set is \<open>None\<close>.
\<close>

definition trim :: "string \<Rightarrow> string" where
  "trim s = rev (dropWhile (\<lambda>c. of_char c \<le> (32::nat)) (rev (dropWhile (\<lambda>c. of_char c \<le> (32::nat)) s)))"

definition specsToRun :: "(string \<Rightarrow> string option) \<Rightarrow> string option" where
  "specsToRun params =
     (if params ''SPEC_FILE'' = Some ''CUSTOM'' \<and>
         (case params ''CUSTOM_SPECS'' of None \<Rightarrow> False | Some s \<Rightarrow> trim s \<noteq> [])
      then params ''CUSTOM_SPECS''
      else params ''SPEC_FILE'')"

definition build_params :: "string \<Rightarrow> string \<Rightarrow> string \<Rightarrow> string option" where
  "build_params spec_file custom_specs name =
     (if name = ''SPEC_FILE'' then Some spec_file
      else if name = ''CUSTOM_SPECS'' then Some custom_specs
      else None)"


section \<open>Properties\<close>

subsection \<open>Reads and the call sequence\<close>

lemmas cy_defs = run_def bnd_def seq_def issue_def ret_def throw_def lift_js_def




subsection \<open>Login by fixture entry\<close>












subsection \<open>API commands: the status assertion decides\<close>

lemma api_get_request:
  "requests (fst (run (apiGetAndValidate srv u e))) =
     [\<lparr>http_method = ''GET'', url = u, payload = None, failOnStatusCode = False\<rparr>]"
  by (simp add: apiGetAndValidate_def cy_request_def cy_defs requests_def expect_num_eq_def
      split: option.splits)

lemma api_post_request:
  "requests (fst (run (apiPostAndValidate srv u b e))) =
     [\<lparr>http_method = ''POST'', url = u, payload = Some b, failOnStatusCode = False\<rparr>]"
  by (simp add: apiPostAndValidate_def cy_request_def cy_defs requests_def expect_num_eq_def
      split: option.splits)

lemma api_get_result:
  assumes "srv \<lparr>http_method = ''GET'', url = u, payload = None, failOnStatusCode = False\<rparr>
             = Some r"
  shows "snd (run (apiGetAndValidate srv u e)) =
           (if default_arg e (JNum 200) = JNum (status r) then Inr r
            else Inl (AssertionError ''to.eq''))"
  using assms
  by (simp add: apiGetAndValidate_def cy_request_def cy_defs expect_num_eq_def)

lemma api_post_result:
  assumes "srv \<lparr>http_method = ''POST'', url = u, payload = Some b, failOnStatusCode = False\<rparr>
             = Some r"
  shows "snd (run (apiPostAndValidate srv u b e)) =
           (if default_arg e (JNum 201) = JNum (status r) then Inr r
            else Inl (AssertionError ''to.eq''))"
  using assms
  by (simp add: apiPostAndValidate_def cy_request_def cy_defs expect_num_eq_def)

text \<open>
  Claim C2. \<open>apiGetAndValidate\<close> and \<open>apiPostAndValidate\<close> issue exactly one request,
  a GET or a POST with \<open>failOnStatusCode\<close> false. When the server answers with a
  response \<open>r\<close>, the command yields \<open>r\<close> if the expected status (200 for GET and 201
  for POST when the argument is left out) strictly equals the status of \<open>r\<close>, and fails
  with the assertion otherwise; so a response whose status equals the expected one
  never fails the command, whatever the status is.
\<close>

theorem api_validate_fails_iff_status_differs:
  "requests (fst (run (apiGetAndValidate srv u e))) =
     [\<lparr>http_method = ''GET'', url = u, payload = None, failOnStatusCode = False\<rparr>] \<and>
   requests (fst (run (apiPostAndValidate srv u b e))) =
     [\<lparr>http_method = ''POST'', url = u, payload = Some b, failOnStatusCode = False\<rparr>] \<and>
   default_arg JUndefined (JNum 200) = JNum 200 \<and>
   default_arg JUndefined (JNum 201) = JNum 201 \<and>
   (\<forall>r. srv \<lparr>http_method = ''GET'', url = u, payload = None, failOnStatusCode = False\<rparr>
          = Some r \<longrightarrow>
        snd (run (apiGetAndValidate srv u e)) =
          (if default_arg e (JNum 200) = JNum (status r) then Inr r
           else Inl (AssertionError ''to.eq'')) \<and>
        snd (run (apiGetAndValidate srv u (JNum (status r)))) = Inr r) \<and>
   (\<forall>r. srv \<lparr>http_method = ''POST'', url = u, payload = Some b, failOnStatusCode = False\<rparr>
          = Some r \<longrightarrow>
        snd (run (apiPostAndValidate srv u b e)) =
          (if default_arg e (JNum 201) = JNum (status r) then Inr r
           else Inl (AssertionError ''to.eq'')) \<and>
        snd (run (apiPostAndValidate srv u b (JNum (status r)))) = Inr r)"
  by (simp add: api_get_request api_post_request api_get_result api_post_result
      default_arg_def)

theorem api_validate_fails_iff_status_differs_witness:
  "snd (run (apiGetAndValidate sample_server ''/api/missing'' (JNum 404))) =
     Inr \<lparr>status = 404, body = JObj []\<rparr> \<and>
   snd (run (apiGetAndValidate sample_server ''/api/missing'' JUndefined)) =
     Inl (AssertionError ''to.eq'') \<and>
   snd (run (apiPostAndValidate sample_server ''/api/users'' (JObj []) JUndefined)) =
     Inr \<lparr>status = 201, body = JArr []\<rparr> \<and>
   snd (run (apiPostAndValidate sample_server ''/api/users'' (JObj []) (JNum 200))) =
     Inl (AssertionError ''to.eq'')"
proof -
  have g: "sample_server
      \<lparr>http_method = ''GET'', url = ''/api/missing'', payload = None, failOnStatusCode = False\<rparr>
      = Some \<lparr>status = 404, body = JObj []\<rparr>"
    by (simp add: sample_server_def)
  have p: "sample_server
      \<lparr>http_method = ''POST'', url = ''/api/users'', payload = Some (JObj []),
       failOnStatusCode = False\<rparr>
      = Some \<lparr>status = 201, body = JArr []\<rparr>"
    by (simp add: sample_server_def)
  note a = api_validate_fails_iff_status_differs
             [of sample_server "''/api/missing''" "JNum 404" "JObj []"]
  note b = api_validate_fails_iff_status_differs
             [of sample_server "''/api/missing''" JUndefined "JObj []"]
  note c = api_validate_fails_iff_status_differs
             [of sample_server "''/api/users''" JUndefined "JObj []"]
  note d = api_validate_fails_iff_status_differs
             [of sample_server "''/api/users''" "JNum 200" "JObj []"]
  have 1: "snd (run (apiGetAndValidate sample_server ''/api/missing'' (JNum 404))) =
     Inr \<lparr>status = 404, body = JObj []\<rparr>"
    using a g by (simp add: default_arg_def)
  have 2: "snd (run (apiGetAndValidate sample_server ''/api/missing'' JUndefined)) =
     Inl (AssertionError ''to.eq'')"
    using b g by (simp add: default_arg_def)
  have 3: "snd (run (apiPostAndValidate sample_server ''/api/users'' (JObj []) JUndefined)) =
     Inr \<lparr>status = 201, body = JArr []\<rparr>"
    using c p by (simp add: default_arg_def)
  have 4: "snd (run (apiPostAndValidate sample_server ''/api/users'' (JObj []) (JNum 200))) =
     Inl (AssertionError ''to.eq'')"
    using d p by (simp add: default_arg_def)
  from 1 2 3 4 show ?thesis by blast
qed

subsection \<open>Schema validation looks at one item\<close>

lemma check_type_skip:
  "js_get item field = Inr JUndefined \<Longrightarrow> check_type item (field, ty) t = (t, Inr ())"
  by (simp add: check_type_def cy_defs)

lemma for_each_filter:
  assumes "\<And>x t. x \<in> set xs \<Longrightarrow> \<not> P x \<Longrightarrow> f x t = (t, Inr ())"
  shows "for_each f (filter P xs) = for_each f xs"
  using assms
proof (induction xs)
  case Nil
  then show ?case by simp
next
  case (Cons x xs)
  then show ?case by (auto simp: cy_defs fun_eq_iff)
qed

lemma validate_item_only:
  assumes "item_to_validate (body r) = item_to_validate (body r')"
  shows "thrown (validateSchema r sch) = thrown (validateSchema r' sch)"
  using assms
  by (simp add: validateSchema_def thrown_def cy_defs Let_def split: prod.splits sum.splits)

lemma validate_yields:
  "snd (run (validateSchema r sch)) = Inr r' \<Longrightarrow> r' = r"
  by (auto simp add: validateSchema_def cy_defs Let_def split: prod.splits sum.splits)

lemma validate_skips_undefined:
  assumes "item_to_validate (body r) \<noteq> JUndefined" and "item_to_validate (body r) \<noteq> JNull"
  shows "validateSchema r (sch\<lparr>types := Some tys\<rparr>) =
         validateSchema r (sch\<lparr>types := Some (filter
           (\<lambda>entry. js_prop (item_to_validate (body r)) (fst entry) \<noteq> JUndefined) tys)\<rparr>)"
proof -
  let ?item = "item_to_validate (body r)"
  have get: "\<And>k. js_get ?item k = Inr (js_prop ?item k)"
    using assms by (cases ?item) (auto simp: js_prop_def split: option.splits)
  have "for_each (check_type ?item)
          (filter (\<lambda>entry. js_prop ?item (fst entry) \<noteq> JUndefined) tys) =
        for_each (check_type ?item) tys"
  proof (rule for_each_filter)
    fix e :: "string \<times> jsval" and t
    assume "\<not> js_prop ?item (fst e) \<noteq> JUndefined"
    then have "js_get ?item (fst e) = Inr JUndefined"
      using get [of "fst e"] by simp
    then show "check_type ?item e t = (t, Inr ())"
      using check_type_skip [of ?item "fst e" "snd e" t] by simp
  qed
  then show ?thesis
    by (simp add: validateSchema_def Let_def)
qed

lemma for_each_all_ok:
  "\<forall>x \<in> set xs. \<forall>t. f x t = (t, Inr ()) \<Longrightarrow> for_each f xs t = (t, Inr ())"
  by (induction xs) (simp_all add: cy_defs)

lemma for_each_first_fail:
  assumes "\<forall>x \<in> set xs. \<forall>t. f x t = (t, Inr ())" and "\<forall>t. f y t = (t, Inl e)"
  shows "for_each f (xs @ y # ys) t = (t, Inl e)"
  using assms by (induction xs) (simp_all add: cy_defs)

lemma required_field_result:
  "required_field item f t =
     (if item \<noteq> JUndefined \<and> item \<noteq> JNull \<and> js_in f item then (t, Inr ())
      else (t, Inl (AssertionError (''Required field '' @ dq @ f @ dq))))"
  by (simp add: required_field_def expect_have_property_def cy_defs)

lemma check_type_result:
  assumes "item \<noteq> JUndefined" and "item \<noteq> JNull"
  shows "check_type item (f, ty) t =
     (if js_prop item f = JUndefined \<or> ty = JStr (typeof (js_prop item f)) then (t, Inr ())
      else (t, Inl (AssertionError (''Field '' @ dq @ f @ dq @ '' type''))))"
proof -
  have "js_get item f = Inr (js_prop item f)"
    using assms by (cases item) (auto simp: js_prop_def split: option.splits)
  then show ?thesis
    by (simp add: check_type_def expect_str_eq_def cy_defs)
qed

lemma check_type_nullish:
  "item = JUndefined \<or> item = JNull \<Longrightarrow> check_type item (f, ty) t = (t, Inl TypeError)"
  by (auto simp: check_type_def cy_defs)

lemma validate_unfold:
  "run (validateSchema r \<lparr>requiredFields = Some required, types = Some tys\<rparr>) =
     (case for_each (required_field (item_to_validate (body r))) required
             [Log ''Validating Response Schema''] of
        (t, Inl e) \<Rightarrow> (t, Inl e)
      | (t, Inr u) \<Rightarrow>
          (case for_each (check_type (item_to_validate (body r))) tys t of
             (t', Inl e) \<Rightarrow> (t', Inl e)
           | (t', Inr u') \<Rightarrow>
               (t' @ [Log ''Schema validation passed'', WrapResponse r], Inr r)))"
  by (simp add: validateSchema_def cy_defs Let_def split: prod.splits sum.splits)


lemma validate_passes:
  assumes "item_to_validate (body r) \<noteq> JUndefined" and "item_to_validate (body r) \<noteq> JNull"
    and "\<forall>f \<in> set required. js_in f (item_to_validate (body r))"
    and "\<forall>e \<in> set tys. js_prop (item_to_validate (body r)) (fst e) = JUndefined \<or>
           snd e = JStr (typeof (js_prop (item_to_validate (body r)) (fst e)))"
  shows "run (validateSchema r \<lparr>requiredFields = Some required, types = Some tys\<rparr>) =
           ([Log ''Validating Response Schema'', Log ''Schema validation passed'',
             WrapResponse r], Inr r)"
proof -
  let ?item = "item_to_validate (body r)"
  have req: "\<And>t. for_each (required_field ?item) required t = (t, Inr ())"
    using assms(1-3) by (intro for_each_all_ok) (simp add: required_field_result)
  have ty: "\<And>t. for_each (check_type ?item) tys t = (t, Inr ())"
  proof (rule for_each_all_ok, intro ballI allI)
    fix e t assume "e \<in> set tys"
    with assms(4) have "js_prop ?item (fst e) = JUndefined \<or>
        snd e = JStr (typeof (js_prop ?item (fst e)))" by blast
    then show "check_type ?item e t = (t, Inr ())"
      using check_type_result [OF assms(1,2), of "fst e" "snd e" t] by simp
  qed
  show ?thesis by (simp add: validate_unfold req ty)
qed

lemma validate_required_fails:
  assumes "required = fs1 @ f # fs2"
    and "\<forall>g \<in> set fs1. js_in g (item_to_validate (body r))"
    and "item_to_validate (body r) \<noteq> JUndefined" and "item_to_validate (body r) \<noteq> JNull"
    and "\<not> js_in f (item_to_validate (body r))"
  shows "run (validateSchema r \<lparr>requiredFields = Some required, types = Some tys\<rparr>) =
           ([Log ''Validating Response Schema''],
            Inl (AssertionError (''Required field '' @ dq @ f @ dq)))"
proof -
  let ?item = "item_to_validate (body r)"
  have "\<And>t. for_each (required_field ?item) (fs1 @ f # fs2) t =
          (t, Inl (AssertionError (''Required field '' @ dq @ f @ dq)))"
    using assms(2-5) by (intro for_each_first_fail) (simp_all add: required_field_result)
  then show ?thesis by (simp add: validate_unfold assms(1))
qed

lemma validate_nullish_required_fails:
  assumes "item_to_validate (body r) = JUndefined \<or> item_to_validate (body r) = JNull"
  shows "run (validateSchema r \<lparr>requiredFields = Some (f # fs), types = Some tys\<rparr>) =
           ([Log ''Validating Response Schema''],
            Inl (AssertionError (''Required field '' @ dq @ f @ dq)))"
proof -
  let ?item = "item_to_validate (body r)"
  have "\<And>t. for_each (required_field ?item) ([] @ f # fs) t =
          (t, Inl (AssertionError (''Required field '' @ dq @ f @ dq)))"
    using assms by (intro for_each_first_fail) (auto simp add: required_field_result)
  then have fe: "\<And>t. for_each (required_field ?item) (f # fs) t =
          (t, Inl (AssertionError (''Required field '' @ dq @ f @ dq)))"
    by (simp del: for_each.simps)
  show ?thesis by (simp add: validate_unfold fe del: for_each.simps(2))
qed

lemma validate_nullish_type_error:
  assumes "item_to_validate (body r) = JUndefined \<or> item_to_validate (body r) = JNull"
  shows "run (validateSchema r \<lparr>requiredFields = Some [], types = Some (e # es)\<rparr>) =
           ([Log ''Validating Response Schema''], Inl TypeError)"
proof -
  let ?item = "item_to_validate (body r)"
  have "\<And>t. check_type ?item e t = (t, Inl TypeError)"
    using check_type_nullish [OF assms, of "fst e" "snd e"] by simp
  then have "\<And>t. for_each (check_type ?item) ([] @ e # es) t = (t, Inl TypeError)"
    by (intro for_each_first_fail) simp_all
  then have fe: "\<And>t. for_each (check_type ?item) (e # es) t = (t, Inl TypeError)"
    by (simp del: for_each.simps)
  show ?thesis by (simp add: validate_unfold fe ret_def del: for_each.simps(2))
qed

lemma validate_type_fails:
  assumes "item_to_validate (body r) \<noteq> JUndefined" and "item_to_validate (body r) \<noteq> JNull"
    and "\<forall>g \<in> set required. js_in g (item_to_validate (body r))"
    and "tys = es1 @ (f, ty) # es2"
    and "\<forall>e \<in> set es1. js_prop (item_to_validate (body r)) (fst e) = JUndefined \<or>
           snd e = JStr (typeof (js_prop (item_to_validate (body r)) (fst e)))"
    and "js_prop (item_to_validate (body r)) f \<noteq> JUndefined"
    and "ty \<noteq> JStr (typeof (js_prop (item_to_validate (body r)) f))"
  shows "run (validateSchema r \<lparr>requiredFields = Some required, types = Some tys\<rparr>) =
           ([Log ''Validating Response Schema''],
            Inl (AssertionError (''Field '' @ dq @ f @ dq @ '' type'')))"
proof -
  let ?item = "item_to_validate (body r)"
  have req: "\<And>t. for_each (required_field ?item) required t = (t, Inr ())"
    using assms(1-3) by (intro for_each_all_ok) (simp add: required_field_result)
  have ok1: "\<forall>e \<in> set es1. \<forall>t. check_type ?item e t = (t, Inr ())"
  proof (intro ballI allI)
    fix e t assume "e \<in> set es1"
    with assms(5) have "js_prop ?item (fst e) = JUndefined \<or>
        snd e = JStr (typeof (js_prop ?item (fst e)))" by blast
    then show "check_type ?item e t = (t, Inr ())"
      using check_type_result [OF assms(1,2), of "fst e" "snd e" t] by simp
  qed
  have bad: "\<forall>t. check_type ?item (f, ty) t =
        (t, Inl (AssertionError (''Field '' @ dq @ f @ dq @ '' type'')))"
    using check_type_result [OF assms(1,2), of f ty] assms(6,7) by simp
  have "\<And>t. for_each (check_type ?item) (es1 @ (f, ty) # es2) t =
          (t, Inl (AssertionError (''Field '' @ dq @ f @ dq @ '' type'')))"
    using ok1 bad by (rule for_each_first_fail)
  then show ?thesis by (simp add: validate_unfold req assms(4))
qed

lemma validate_passes_iff:
  assumes "item_to_validate (body r) \<noteq> JUndefined" and "item_to_validate (body r) \<noteq> JNull"
  shows "(thrown (validateSchema r \<lparr>requiredFields = Some required, types = Some tys\<rparr>) = None) =
         ((\<forall>f \<in> set required. js_in f (item_to_validate (body r))) \<and>
          (\<forall>e \<in> set tys. js_prop (item_to_validate (body r)) (fst e) = JUndefined \<or>
             snd e = JStr (typeof (js_prop (item_to_validate (body r)) (fst e)))))"
proof
  let ?item = "item_to_validate (body r)"
  let ?S = "\<lparr>requiredFields = Some required, types = Some tys\<rparr>"
  let ?ok = "\<lambda>e. js_prop ?item (fst e) = JUndefined \<or> snd e = JStr (typeof (js_prop ?item (fst e)))"
  assume none: "thrown (validateSchema r ?S) = None"
  have req: "\<forall>f \<in> set required. js_in f ?item"
  proof (rule ccontr)
    assume "\<not> (\<forall>f \<in> set required. js_in f ?item)"
    then have "\<exists>f \<in> set required. \<not> js_in f ?item" by blast
    then obtain fs1 f fs2 where "required = fs1 @ f # fs2" "\<not> js_in f ?item"
      "\<forall>g \<in> set fs1. \<not> \<not> js_in g ?item"
      using split_list_first_prop [of required "\<lambda>f. \<not> js_in f ?item"] by blast
    then have "run (validateSchema r ?S) =
       ([Log ''Validating Response Schema''],
        Inl (AssertionError (''Required field '' @ dq @ f @ dq)))"
      using validate_required_fails [of required fs1 f fs2 r tys] assms by simp
    with none show False by (simp add: thrown_def)
  qed
  have ty: "\<forall>e \<in> set tys. ?ok e"
  proof (rule ccontr)
    assume "\<not> (\<forall>e \<in> set tys. ?ok e)"
    then have "\<exists>e \<in> set tys. \<not> ?ok e" by blast
    then obtain es1 e es2 where s: "tys = es1 @ e # es2" "\<not> ?ok e"
      "\<forall>g \<in> set es1. \<not> \<not> ?ok g"
      using split_list_first_prop [of tys "\<lambda>e. \<not> ?ok e"] by blast
    then have "run (validateSchema r ?S) =
       ([Log ''Validating Response Schema''],
        Inl (AssertionError (''Field '' @ dq @ fst e @ dq @ '' type'')))"
      using validate_type_fails [of r required tys es1 "fst e" "snd e" es2] assms req by simp
    with none show False by (simp add: thrown_def)
  qed
  from req ty show "(\<forall>f \<in> set required. js_in f ?item) \<and> (\<forall>e \<in> set tys. ?ok e)" by blast
next
  assume "(\<forall>f \<in> set required. js_in f (item_to_validate (body r))) \<and>
          (\<forall>e \<in> set tys. js_prop (item_to_validate (body r)) (fst e) = JUndefined \<or>
             snd e = JStr (typeof (js_prop (item_to_validate (body r)) (fst e))))"
  then show "thrown (validateSchema r \<lparr>requiredFields = Some required, types = Some tys\<rparr>) = None"
    using validate_passes [OF assms, of required tys] by (simp add: thrown_def)
qed

lemma validate_defaults:
  "validateSchema r \<lparr>requiredFields = None, types = ts\<rparr> =
     validateSchema r \<lparr>requiredFields = Some [], types = ts\<rparr>"
  "validateSchema r \<lparr>requiredFields = fs, types = None\<rparr> =
     validateSchema r \<lparr>requiredFields = fs, types = Some []\<rparr>"
  by (simp_all add: validateSchema_def)

text \<open>
  Claim C9. \<open>validateSchema\<close> validates one item: the first element when the body is
  an array, so two responses with the same item to validate (two arrays with the same
  first element, whatever follows it) pass or fail alike, with the same error. On an
  item that is neither \<open>undefined\<close> nor \<open>null\<close> the command passes exactly when the
  item has every required field and every type entry either reads \<open>undefined\<close> on the
  item or names the type of what it reads; it then yields the response it was given.
  Otherwise it fails at the first required field the item lacks, or else at the first
  type entry whose field is there with another type. A type entry whose field reads
  \<open>undefined\<close> passes its check whatever type it expects, so the command runs as if the
  entry were not listed. On an item that is \<open>undefined\<close> (an empty array) or \<open>null\<close>
  the first required field fails, and without required fields the first type entry
  raises a TypeError. A member the schema leaves out counts as empty.
\<close>

theorem validateSchema_first_item_only:
  "item_to_validate (JArr (x # xs)) = x \<and>
   thrown (validateSchema (r\<lparr>body := JArr (x # xs)\<rparr>) sch) =
     thrown (validateSchema (r\<lparr>body := JArr (x # ys)\<rparr>) sch) \<and>
   (item_to_validate (body r) = item_to_validate (body r') \<longrightarrow>
      thrown (validateSchema r sch) = thrown (validateSchema r' sch)) \<and>
   (js_get item field = Inr JUndefined \<longrightarrow> run (check_type item (field, ty)) = ([], Inr ())) \<and>
   (item_to_validate (body r) \<noteq> JUndefined \<and> item_to_validate (body r) \<noteq> JNull \<longrightarrow>
      run (validateSchema r (sch\<lparr>types := Some tys\<rparr>)) =
      run (validateSchema r (sch\<lparr>types := Some (filter
             (\<lambda>entry. js_prop (item_to_validate (body r)) (fst entry) \<noteq> JUndefined) tys)\<rparr>))) \<and>
   (\<forall>r'. snd (run (validateSchema r sch)) = Inr r' \<longrightarrow> r' = r) \<and>
   (thrown (validateSchema r sch) = None \<longrightarrow> snd (run (validateSchema r sch)) = Inr r) \<and>
   validateSchema r \<lparr>requiredFields = None, types = ts\<rparr> =
     validateSchema r \<lparr>requiredFields = Some [], types = ts\<rparr> \<and>
   validateSchema r \<lparr>requiredFields = fs, types = None\<rparr> =
     validateSchema r \<lparr>requiredFields = fs, types = Some []\<rparr> \<and>
   (item_to_validate (body r) = it \<and> it \<noteq> JUndefined \<and> it \<noteq> JNull \<longrightarrow>
      ((thrown (validateSchema r \<lparr>requiredFields = Some required, types = Some tys\<rparr>) = None) =
         ((\<forall>f \<in> set required. js_in f it) \<and>
          (\<forall>e \<in> set tys. js_prop it (fst e) = JUndefined \<or>
                            snd e = JStr (typeof (js_prop it (fst e)))))) \<and>
      ((\<forall>f \<in> set required. js_in f it) \<and>
       (\<forall>e \<in> set tys. js_prop it (fst e) = JUndefined \<or>
                         snd e = JStr (typeof (js_prop it (fst e)))) \<longrightarrow>
         run (validateSchema r \<lparr>requiredFields = Some required, types = Some tys\<rparr>) =
           ([Log ''Validating Response Schema'', Log ''Schema validation passed'',
             WrapResponse r], Inr r)) \<and>
      (\<forall>fs1 f fs2. required = fs1 @ f # fs2 \<and> (\<forall>g \<in> set fs1. js_in g it) \<and> \<not> js_in f it \<longrightarrow>
         run (validateSchema r \<lparr>requiredFields = Some required, types = Some tys\<rparr>) =
           ([Log ''Validating Response Schema''],
            Inl (AssertionError (''Required field '' @ dq @ f @ dq)))) \<and>
      (\<forall>es1 f t es2.
         (\<forall>g \<in> set required. js_in g it) \<and> tys = es1 @ (f, t) # es2 \<and>
         (\<forall>e \<in> set es1. js_prop it (fst e) = JUndefined \<or>
                           snd e = JStr (typeof (js_prop it (fst e)))) \<and>
         js_prop it f \<noteq> JUndefined \<and> t \<noteq> JStr (typeof (js_prop it f)) \<longrightarrow>
         run (validateSchema r \<lparr>requiredFields = Some required, types = Some tys\<rparr>) =
           ([Log ''Validating Response Schema''],
            Inl (AssertionError (''Field '' @ dq @ f @ dq @ '' type''))))) \<and>
   (item_to_validate (body r) = JUndefined \<or> item_to_validate (body r) = JNull \<longrightarrow>
      (\<forall>f fs'. run (validateSchema r \<lparr>requiredFields = Some (f # fs'), types = Some tys\<rparr>) =
           ([Log ''Validating Response Schema''],
            Inl (AssertionError (''Required field '' @ dq @ f @ dq)))) \<and>
      (\<forall>e es. run (validateSchema r \<lparr>requiredFields = Some [], types = Some (e # es)\<rparr>) =
           ([Log ''Validating Response Schema''], Inl TypeError)))"
proof (intro conjI impI allI)
  show "item_to_validate (JArr (x # xs)) = x" by simp
  show "thrown (validateSchema (r\<lparr>body := JArr (x # xs)\<rparr>) sch) =
        thrown (validateSchema (r\<lparr>body := JArr (x # ys)\<rparr>) sch)"
    by (rule validate_item_only) simp
  show "validateSchema r \<lparr>requiredFields = None, types = ts\<rparr> =
     validateSchema r \<lparr>requiredFields = Some [], types = ts\<rparr>"
    by (rule validate_defaults)
  show "validateSchema r \<lparr>requiredFields = fs, types = None\<rparr> =
     validateSchema r \<lparr>requiredFields = fs, types = Some []\<rparr>"
    by (rule validate_defaults)
next
  assume "item_to_validate (body r) = item_to_validate (body r')"
  then show "thrown (validateSchema r sch) = thrown (validateSchema r' sch)"
    by (rule validate_item_only)
next
  assume "js_get item field = Inr JUndefined"
  then show "run (check_type item (field, ty)) = ([], Inr ())"
    by (simp add: run_def check_type_skip)
next
  assume "item_to_validate (body r) \<noteq> JUndefined \<and> item_to_validate (body r) \<noteq> JNull"
  then show "run (validateSchema r (sch\<lparr>types := Some tys\<rparr>)) =
      run (validateSchema r (sch\<lparr>types := Some (filter
             (\<lambda>entry. js_prop (item_to_validate (body r)) (fst entry) \<noteq> JUndefined) tys)\<rparr>))"
    using validate_skips_undefined [where r = r and sch = sch and tys = tys] by simp
next
  fix r' assume "snd (run (validateSchema r sch)) = Inr r'"
  then show "r' = r" by (rule validate_yields)
next
  assume "thrown (validateSchema r sch) = None"
  then obtain r' where r': "snd (run (validateSchema r sch)) = Inr r'"
    by (auto simp: thrown_def split: sum.splits)
  then have "r' = r" by (rule validate_yields)
  with r' show "snd (run (validateSchema r sch)) = Inr r" by simp
next
  assume "item_to_validate (body r) = it \<and> it \<noteq> JUndefined \<and> it \<noteq> JNull"
  then show "(thrown (validateSchema r \<lparr>requiredFields = Some required, types = Some tys\<rparr>) = None) =
         ((\<forall>f \<in> set required. js_in f it) \<and>
          (\<forall>e \<in> set tys. js_prop it (fst e) = JUndefined \<or>
                            snd e = JStr (typeof (js_prop it (fst e)))))"
    using validate_passes_iff [of r required tys] by auto
next
  assume "item_to_validate (body r) = it \<and> it \<noteq> JUndefined \<and> it \<noteq> JNull"
    and "(\<forall>f \<in> set required. js_in f it) \<and>
       (\<forall>e \<in> set tys. js_prop it (fst e) = JUndefined \<or>
                         snd e = JStr (typeof (js_prop it (fst e))))"
  then show "run (validateSchema r \<lparr>requiredFields = Some required, types = Some tys\<rparr>) =
           ([Log ''Validating Response Schema'', Log ''Schema validation passed'',
             WrapResponse r], Inr r)"
    using validate_passes [of r required tys] by auto
next
  fix fs1 f fs2
  assume "item_to_validate (body r) = it \<and> it \<noteq> JUndefined \<and> it \<noteq> JNull"
    and "required = fs1 @ f # fs2 \<and> (\<forall>g \<in> set fs1. js_in g it) \<and> \<not> js_in f it"
  then show "run (validateSchema r \<lparr>requiredFields = Some required, types = Some tys\<rparr>) =
           ([Log ''Validating Response Schema''],
            Inl (AssertionError (''Required field '' @ dq @ f @ dq)))"
    using validate_required_fails [of required fs1 f fs2 r tys] by auto
next
  fix es1 f t es2
  assume "item_to_validate (body r) = it \<and> it \<noteq> JUndefined \<and> it \<noteq> JNull"
    and "(\<forall>g \<in> set required. js_in g it) \<and> tys = es1 @ (f, t) # es2 \<and>
         (\<forall>e \<in> set es1. js_prop it (fst e) = JUndefined \<or>
                           snd e = JStr (typeof (js_prop it (fst e)))) \<and>
         js_prop it f \<noteq> JUndefined \<and> t \<noteq> JStr (typeof (js_prop it f))"
  then show "run (validateSchema r \<lparr>requiredFields = Some required, types = Some tys\<rparr>) =
           ([Log ''Validating Response Schema''],
            Inl (AssertionError (''Field '' @ dq @ f @ dq @ '' type'')))"
    using validate_type_fails [of r required tys es1 f t es2] by auto
next
  fix f fs'
  assume "item_to_validate (body r) = JUndefined \<or> item_to_validate (body r) = JNull"
  then show "run (validateSchema r \<lparr>requiredFields = Some (f # fs'), types = Some tys\<rparr>) =
           ([Log ''Validating Response Schema''],
            Inl (AssertionError (''Required field '' @ dq @ f @ dq)))"
    by (rule validate_nullish_required_fails)
next
  fix e es
  assume "item_to_validate (body r) = JUndefined \<or> item_to_validate (body r) = JNull"
  then show "run (validateSchema r \<lparr>requiredFields = Some [], types = Some (e # es)\<rparr>) =
           ([Log ''Validating Response Schema''], Inl TypeError)"
    by (rule validate_nullish_type_error)
qed

theorem validateSchema_first_item_only_witness:
  "run (validateSchema \<lparr>status = 200, body = JArr [good_post, bad_post]\<rparr> post_schema) =
     ([Log ''Validating Response Schema'', Log ''Schema validation passed'',
       WrapResponse \<lparr>status = 200, body = JArr [good_post, bad_post]\<rparr>],
      Inr \<lparr>status = 200, body = JArr [good_post, bad_post]\<rparr>) \<and>
   run (validateSchema \<lparr>status = 200, body = JArr [bad_post, good_post]\<rparr> post_schema) =
     ([Log ''Validating Response Schema''],
      Inl (AssertionError (''Required field '' @ dq @ ''title'' @ dq))) \<and>
   run (validateSchema \<lparr>status = 200, body = mistyped_post\<rparr> post_schema) =
     ([Log ''Validating Response Schema''],
      Inl (AssertionError (''Field '' @ dq @ ''id'' @ dq @ '' type''))) \<and>
   run (validateSchema \<lparr>status = 200, body = JArr []\<rparr> post_schema) =
     ([Log ''Validating Response Schema''],
      Inl (AssertionError (''Required field '' @ dq @ ''id'' @ dq))) \<and>
   js_get good_post ''views'' = Inr JUndefined \<and>
   run (check_type good_post (''views'', JStr ''number'')) = ([], Inr ())"
proof -
  let ?req = "[''id'', ''title'']"
  let ?tys = "[(''id'', JStr ''number''), (''title'', JStr ''string''),
               (''views'', JStr ''number'')]"
  let ?good = "\<lparr>status = 200, body = JArr [good_post, bad_post]\<rparr>"
  let ?bad = "\<lparr>status = 200, body = JArr [bad_post, good_post]\<rparr>"
  let ?mis = "\<lparr>status = 200, body = mistyped_post\<rparr>"
  let ?none = "\<lparr>status = 200, body = JArr []\<rparr>"
  have s: "post_schema = \<lparr>requiredFields = Some ?req, types = Some ?tys\<rparr>"
    by (simp add: post_schema_def)
  note on_item = validateSchema_first_item_only
     [THEN conjunct2, THEN conjunct2, THEN conjunct2, THEN conjunct2, THEN conjunct2,
      THEN conjunct2, THEN conjunct2, THEN conjunct2, THEN conjunct2, THEN conjunct1, THEN mp]
  note on_nothing = validateSchema_first_item_only
     [THEN conjunct2, THEN conjunct2, THEN conjunct2, THEN conjunct2, THEN conjunct2,
      THEN conjunct2, THEN conjunct2, THEN conjunct2, THEN conjunct2, THEN conjunct2, THEN mp]
  note skip = validateSchema_first_item_only
     [THEN conjunct2, THEN conjunct2, THEN conjunct2, THEN conjunct1, THEN mp]
  have undef: "js_get good_post ''views'' = Inr JUndefined"
    by (simp add: good_post_def object_proto_def)
  have gi: "item_to_validate (body ?good) = good_post \<and> good_post \<noteq> JUndefined \<and>
      good_post \<noteq> JNull"
    by (simp add: good_post_def)
  have gok: "(\<forall>f \<in> set ?req. js_in f good_post) \<and>
       (\<forall>e \<in> set ?tys. js_prop good_post (fst e) = JUndefined \<or>
                         snd e = JStr (typeof (js_prop good_post (fst e))))"
    by (simp add: good_post_def js_in_def js_prop_def object_proto_def)
  have 1: "run (validateSchema ?good post_schema) =
     ([Log ''Validating Response Schema'', Log ''Schema validation passed'',
       WrapResponse ?good], Inr ?good)"
    unfolding s
    by (rule on_item [OF gi, THEN conjunct2, THEN conjunct1, THEN mp, OF gok])
  have bi: "item_to_validate (body ?bad) = bad_post \<and> bad_post \<noteq> JUndefined \<and>
      bad_post \<noteq> JNull"
    by (simp add: bad_post_def)
  have bno: "?req = [''id''] @ ''title'' # [] \<and> (\<forall>g \<in> set [''id'']. js_in g bad_post) \<and>
      \<not> js_in ''title'' bad_post"
    by (simp add: bad_post_def js_in_def object_proto_def)
  have 2: "run (validateSchema ?bad post_schema) =
     ([Log ''Validating Response Schema''],
      Inl (AssertionError (''Required field '' @ dq @ ''title'' @ dq)))"
    unfolding s
    by (rule on_item [OF bi, THEN conjunct2, THEN conjunct2, THEN conjunct1, rule_format,
          OF bno])
  have mi: "item_to_validate (body ?mis) = mistyped_post \<and> mistyped_post \<noteq> JUndefined \<and>
      mistyped_post \<noteq> JNull"
    by (simp add: mistyped_post_def)
  have mno: "(\<forall>g \<in> set ?req. js_in g mistyped_post) \<and>
      ?tys = [] @ (''id'', JStr ''number'') #
               [(''title'', JStr ''string''), (''views'', JStr ''number'')] \<and>
      (\<forall>e \<in> set ([] :: (string \<times> jsval) list).
          js_prop mistyped_post (fst e) = JUndefined \<or>
          snd e = JStr (typeof (js_prop mistyped_post (fst e)))) \<and>
      js_prop mistyped_post ''id'' \<noteq> JUndefined \<and>
      JStr ''number'' \<noteq> JStr (typeof (js_prop mistyped_post ''id''))"
    by (simp add: mistyped_post_def js_in_def js_prop_def)
  have 3: "run (validateSchema ?mis post_schema) =
     ([Log ''Validating Response Schema''],
      Inl (AssertionError (''Field '' @ dq @ ''id'' @ dq @ '' type'')))"
    unfolding s
    by (rule on_item [OF mi, THEN conjunct2, THEN conjunct2, THEN conjunct2, rule_format,
          OF mno])
  have ni: "item_to_validate (body ?none) = JUndefined \<or> item_to_validate (body ?none) = JNull"
    by simp
  have 4: "run (validateSchema ?none post_schema) =
     ([Log ''Validating Response Schema''],
      Inl (AssertionError (''Required field '' @ dq @ ''id'' @ dq)))"
    unfolding s
    by (rule on_nothing [OF ni, THEN conjunct1, rule_format])
  have 5: "run (check_type good_post (''views'', JStr ''number'')) = ([], Inr ())"
    using undef by (rule skip)
  from 1 2 3 4 undef 5 show ?thesis by blast
qed

subsection \<open>Two command names are registered twice\<close>

lemma apiLogin_registered_twice: "count_list (map fst support_file) ''apiLogin'' = 2"
  by (simp add: support_file_def)

lemma uploadFile_registered_twice: "count_list (map fst support_file) ''uploadFile'' = 2"
  by (simp add: support_file_def)

lemma count_list_distinct: "distinct xs \<Longrightarrow> count_list xs x \<le> 1"
  by (induction xs) (auto simp: count_list_0_iff)

text \<open>
  Claim C8 on the code. The support file registers 45 commands; the names \<open>apiLogin\<close>
  (lines 174 and 536) and \<open>uploadFile\<close> (lines 828 and 939) are registered twice, so
  the names are not distinct, and after loading each of the two names dispatches to the
  later definition, whose parameters differ from those of the earlier one.
\<close>

theorem support_file_registers_twice:
  "length support_file = 45 \<and>
   registered_twice support_file = [''apiLogin'', ''uploadFile''] \<and>
   count_list (map fst support_file) ''apiLogin'' = 2 \<and>
   count_list (map fst support_file) ''uploadFile'' = 2 \<and>
   \<not> distinct (map fst support_file) \<and>
   load_support support_file ''apiLogin'' =
     Some \<lparr>source_line = 536, parameters = [''email'', ''password'', ''authEndpoint'']\<rparr> \<and>
   load_support support_file ''uploadFile'' =
     Some \<lparr>source_line = 939, parameters = [''selector'', ''fileName'']\<rparr>"
proof -
  have n: "length support_file = 45"
    by (simp add: support_file_def)
  have tw: "registered_twice support_file = [''apiLogin'', ''uploadFile'']"
    by code_simp
  have nd: "\<not> distinct (map fst support_file)"
    using count_list_distinct [of "map fst support_file" "''apiLogin''"]
      apiLogin_registered_twice by auto
  have a: "load_support support_file ''apiLogin'' =
     Some \<lparr>source_line = 536, parameters = [''email'', ''password'', ''authEndpoint'']\<rparr>"
    by (simp add: load_support_def support_file_def Commands_add_def)
  have u: "load_support support_file ''uploadFile'' =
     Some \<lparr>source_line = 939, parameters = [''selector'', ''fileName'']\<rparr>"
    by (simp add: load_support_def support_file_def Commands_add_def)
  from n tw nd a u apiLogin_registered_twice uploadFile_registered_twice
  show ?thesis by blast
qed


subsection \<open>Clearing the downloads folder\<close>

















lemma child_of_join: "child_of dir (path_join dir n)"
  by (simp add: child_of_def path_join_def)












subsection \<open>Suite variables of the hook demonstrations\<close>































subsection \<open>The body of an iframe\<close>



lemma retry_timeout:
  "\<forall>d \<in> set ds. f d = Retries \<Longrightarrow> retry f ds = Inl (CypressError ''Timed out retrying'')"
  by (induction ds) auto

lemma attempt_yields:
  "iframe_body_attempt m sel doc = Yields b \<Longrightarrow>
     \<exists>e es d. cy_get m doc sel = e # es \<and> contentDocument e = Some d \<and> doc_body d = Some b
        \<and> children b \<noteq> []"
  by (auto simp: iframe_body_attempt_def split: list.splits option.splits if_splits)





lemma cy_get_elements:
  "(e \<in> set (cy_get m doc sel)) =
     (\<exists>root. doc_body doc = Some root \<and> e \<in> set (root # descendants root) \<and> m sel e)"
  by (cases "doc_body doc") (auto simp: cy_get_def)




subsection \<open>The CI definitions\<close>

lemmas ci_defs = docker_pipeline_def day4_pipeline_def param_pipeline_def batch_script_def
  checkout_stage_def install_stage_def verify_stage_def archive_post_def reporter_flags_def
  on_platform_def set_opts_def pipeline_steps_def pipeline_conditions_def invocations_def
  activities_def stage_activities_def pipeline_activities_def stage_named_def

text \<open>
  Claim C3, as the definitions have it. The pipeline on the docker agent has six stages:
  checkout, install, run, report (merge and generate), a diagnostic listing, and a last
  stage that publishes the report and archives the artifacts; it has no verify stage.
  The two pipelines on the NodeJS tool have the stages checkout, install, verify and
  run (the Day 4 pipeline runs a second time for the Day 4 specs); they have no report
  stage and archive in the \<open>post\<close> section that always runs after the stages. In each
  pipeline the activities that are there come in the order checkout, install, verify,
  run, report, archive.
\<close>

theorem pipeline_stages_in_order:
  "stage_activities docker_pipeline =
     [[Checkout], [Install], [RunTests], [Report], [], [Report, Archive]] \<and>
   activities (post_always docker_pipeline) = [] \<and>
   stage_activities day4_pipeline =
     [[Checkout], [Install], [Verify], [RunTests], [RunTests]] \<and>
   activities (post_always day4_pipeline) = [Archive] \<and>
   stage_activities param_pipeline = [[Checkout], [Install], [Verify], [RunTests]] \<and>
   activities (post_always param_pipeline) = [Archive] \<and>
   sorted (map rank (pipeline_activities docker_pipeline)) \<and>
   sorted (map rank (pipeline_activities day4_pipeline)) \<and>
   sorted (map rank (pipeline_activities param_pipeline))"
  by (simp add: ci_defs)

text \<open>
  Where C3 as stated fails: neither pipeline has the six stages. The docker pipeline
  verifies nothing; the parameterised pipeline has no stage that generates a report and
  no stage that archives.
\<close>

theorem pipeline_stages_counterexample:
  "stage_activities docker_pipeline \<noteq>
     [[Checkout], [Install], [Verify], [RunTests], [Report], [Archive]] \<and>
   Verify \<notin> set (concat (stage_activities docker_pipeline)) \<and>
   stage_activities param_pipeline \<noteq>
     [[Checkout], [Install], [Verify], [RunTests], [Report], [Archive]] \<and>
   Report \<notin> set (pipeline_activities param_pipeline) \<and>
   Archive \<notin> set (concat (stage_activities param_pipeline))"
  by (simp add: ci_defs)

text \<open>
  Claim C4, as the definitions have it. In the pipeline on the docker agent three of the
  seven conditions are existence checks alone: the existence of \<open>package-lock.json\<close>,
  which decides between \<open>npm ci\<close> and \<open>npm install\<close>, of report files to merge, and of
  the report to publish. Its two diagnostic lines run \<open>true\<close> when the directory
  \<open>cypress\<close> is missing or the listing of it fails, and its \<open>post\<close> section branches
  on the outcome of the build. The batch script has three \<open>if exist\<close> conditions, one
  of which decides between \<open>npm ci\<close> and \<open>npm install\<close>, and guards three installs by
  the exit status of \<open>npm ls\<close>. The pipelines on the NodeJS tool have no existence
  check: every stage but the checkout, which has no branch, branches on the platform;
  \<open>npm install\<close> runs when \<open>npm ci\<close> fails; the \<open>post\<close> section branches on the outcome
  of the build. The run stage of the parameterised pipeline chooses the spec files by the
  build parameters: it passes \<open>CUSTOM_SPECS\<close> when \<open>SPEC_FILE\<close> is \<open>CUSTOM\<close> and
  \<open>CUSTOM_SPECS\<close> is not blank, and \<open>SPEC_FILE\<close> otherwise.
\<close>

theorem branch_conditions_of_ci:
  "pipeline_conditions docker_pipeline =
     [FileExists ''package-lock.json'', GlobExists ''cypress/reports/*.json'',
      Both (DirExists ''cypress'') (ExitOk (Other ''ls -la cypress'')),
      Both (DirExists ''cypress'')
        (ExitOk (Other ''find cypress -maxdepth 3 -type f -print'')),
      FileExists ''cypress/reports/mochawesome.html'', BuildSucceeded, BuildFailed] \<and>
   filter is_existence_check (pipeline_conditions docker_pipeline) =
     [FileExists ''package-lock.json'', GlobExists ''cypress/reports/*.json'',
      FileExists ''cypress/reports/mochawesome.html''] \<and>
   concat (map (deciding (Other ''true'')) (pipeline_steps docker_pipeline)) =
     [Both (DirExists ''cypress'') (ExitOk (Other ''ls -la cypress'')),
      Both (DirExists ''cypress'')
        (ExitOk (Other ''find cypress -maxdepth 3 -type f -print''))] \<and>
   concat (map conditions batch_script) =
     [PathExists ''package-lock.json'', ExitOk (NpmLs ''mochawesome''),
      ExitOk (NpmLs ''mochawesome-merge''), ExitOk (NpmLs ''mochawesome-report-generator''),
      GlobExists ''cypress/reports/*.json'', PathExists ''cypress''] \<and>
   filter is_existence_check (concat (map conditions batch_script)) =
     [PathExists ''package-lock.json'', GlobExists ''cypress/reports/*.json'',
      PathExists ''cypress''] \<and>
   concat (map (deciding NpmInstall) (pipeline_steps docker_pipeline)) =
     [FileExists ''package-lock.json''] \<and>
   concat (map (deciding NpmCi) (pipeline_steps docker_pipeline)) =
     [FileExists ''package-lock.json''] \<and>
   concat (map (deciding NpmInstall) batch_script) = [PathExists ''package-lock.json''] \<and>
   concat (map (deciding NpmCi) batch_script) = [PathExists ''package-lock.json''] \<and>
   stage_conditions day4_pipeline =
     [(''Checkout'', []),
      (''Install Dependencies'', [IsUnix, ExitOk NpmCi, ExitOk NpmCi]),
      (''Verify Cypress'', [IsUnix]),
      (''Run Cypress Tests'', [IsUnix]),
      (''Run Day 4 Tests Only'', [IsUnix])] \<and>
   pipeline_conditions day4_pipeline =
     [IsUnix, ExitOk NpmCi, ExitOk NpmCi, IsUnix, IsUnix, IsUnix,
      BuildSucceeded, BuildFailed] \<and>
   filter is_existence_check (pipeline_conditions day4_pipeline) = [] \<and>
   stage_conditions param_pipeline =
     [(''Checkout'', []),
      (''Install Dependencies'', [IsUnix, ExitOk NpmCi, ExitOk NpmCi]),
      (''Verify Cypress'', [IsUnix]),
      (''Run Cypress Tests'',
       [Both (ParamEquals ''SPEC_FILE'' ''CUSTOM'') (ParamNonBlank ''CUSTOM_SPECS''),
        IsUnix])] \<and>
   pipeline_conditions param_pipeline =
     [IsUnix, ExitOk NpmCi, ExitOk NpmCi, IsUnix,
      Both (ParamEquals ''SPEC_FILE'' ''CUSTOM'') (ParamNonBlank ''CUSTOM_SPECS''), IsUnix,
      BuildSucceeded, BuildFailed] \<and>
   filter is_existence_check (pipeline_conditions param_pipeline) = [] \<and>
   concat (map (deciding NpmInstall) (pipeline_steps day4_pipeline)) =
     [ExitOk NpmCi, ExitOk NpmCi] \<and>
   concat (map (deciding NpmInstall) (pipeline_steps param_pipeline)) =
     [ExitOk NpmCi, ExitOk NpmCi] \<and>
   specsToRun (build_params f c) = Some (if f = ''CUSTOM'' \<and> trim c \<noteq> [] then c else f)"
  by (simp add: ci_defs stage_conditions_def specsToRun_def build_params_def)

text \<open>
  Where C4 as stated fails: the parameterised pipeline branches on the platform and on
  the build parameters, neither an existence check; its choice between \<open>npm ci\<close> and
  \<open>npm install\<close> follows the exit status of \<open>npm ci\<close>; the spec files of its run
  stage change with the parameters alone; and the diagnostic stage of the pipeline on the
  docker agent branches on the exit status of a listing.
\<close>

theorem branch_conditions_counterexample:
  "\<not> list_all is_existence_check (pipeline_conditions param_pipeline) \<and>
   concat (map conditions (stage_named param_pipeline ''Run Cypress Tests'')) =
     [Both (ParamEquals ''SPEC_FILE'' ''CUSTOM'') (ParamNonBlank ''CUSTOM_SPECS''), IsUnix] \<and>
   \<not> is_existence_check (Both (ParamEquals ''SPEC_FILE'' ''CUSTOM'') (ParamNonBlank ''CUSTOM_SPECS'')) \<and>
   \<not> is_existence_check IsUnix \<and>
   concat (map (deciding NpmInstall) (pipeline_steps param_pipeline)) =
     [ExitOk NpmCi, ExitOk NpmCi] \<and>
   \<not> is_existence_check (ExitOk NpmCi) \<and>
   specsToRun (build_params ''CUSTOM'' ''cypress/e2e/Day2/Login.cy.js'') =
     Some ''cypress/e2e/Day2/Login.cy.js'' \<and>
   specsToRun (build_params ''cypress/e2e/Day3/*.cy.js'' ''cypress/e2e/Day2/Login.cy.js'') =
     Some ''cypress/e2e/Day3/*.cy.js'' \<and>
   concat (map conditions (stage_named docker_pipeline ''Diagnostics (list files)'')) =
     [Both (DirExists ''cypress'') (ExitOk (Other ''ls -la cypress'')),
      Both (DirExists ''cypress'')
        (ExitOk (Other ''find cypress -maxdepth 3 -type f -print''))] \<and>
   \<not> is_existence_check (Both (DirExists ''cypress'') (ExitOk (Other ''ls -la cypress'')))"
  by (simp add: ci_defs specsToRun_def build_params_def trim_def)

text \<open>
  Claim C6, as the definitions have it. The \<open>cypress run\<close> command lines of the CI
  definitions pass these flags: the docker pipeline and the batch script \<open>--config\<close>,
  \<open>--reporter\<close> and \<open>--reporter-options\<close>; the Day 4 pipeline \<open>--reporter\<close> and
  \<open>--reporter-options\<close> in one stage and \<open>--spec\<close> alone in the other; the parameterised
  pipeline \<open>--spec\<close>, \<open>--reporter\<close> and \<open>--reporter-options\<close>. So every run passes
  \<open>--spec\<close> or \<open>--reporter\<close>, only the parameterised pipeline passes both, and
  \<open>--env\<close> is used nowhere.
\<close>

theorem runner_flags_of_ci:
  "invocations (pipeline_steps docker_pipeline) =
     [[''--config'', ''--reporter'', ''--reporter-options'']] \<and>
   invocations batch_script = [[''--config'', ''--reporter'', ''--reporter-options'']] \<and>
   invocations (pipeline_steps day4_pipeline) =
     [[''--reporter'', ''--reporter-options''], [''--reporter'', ''--reporter-options''],
      [''--spec''], [''--spec'']] \<and>
   invocations (pipeline_steps param_pipeline) =
     [[''--spec'', ''--reporter'', ''--reporter-options''],
      [''--spec'', ''--reporter'', ''--reporter-options'']] \<and>
   list_all (\<lambda>fs. ''--spec'' \<in> set fs \<or> ''--reporter'' \<in> set fs)
     (invocations (pipeline_steps docker_pipeline) @ invocations batch_script @
      invocations (pipeline_steps day4_pipeline) @ invocations (pipeline_steps param_pipeline)) \<and>
   remdups (concat
     (invocations (pipeline_steps docker_pipeline) @ invocations batch_script @
      invocations (pipeline_steps day4_pipeline) @ invocations (pipeline_steps param_pipeline))) =
     [''--config'', ''--spec'', ''--reporter'', ''--reporter-options'']"
  by (simp add: ci_defs)

text \<open>
  Where C6 as stated fails: the run of the docker pipeline passes no \<open>--spec\<close> and
  passes \<open>--config\<close> and \<open>--reporter-options\<close>, which are not among the three flags;
  the Day 4 stage passes no \<open>--reporter\<close>.
\<close>

theorem runner_flags_counterexample:
  "invocations (pipeline_steps docker_pipeline) =
     [[''--config'', ''--reporter'', ''--reporter-options'']] \<and>
   ''--spec'' \<notin> set [''--config'', ''--reporter'', ''--reporter-options''] \<and>
   ''--config'' \<notin> set [''--spec'', ''--reporter'', ''--env''] \<and>
   ''--reporter-options'' \<notin> set [''--spec'', ''--reporter'', ''--env''] \<and>
   [''--spec''] \<in> set (invocations (pipeline_steps day4_pipeline)) \<and>
   ''--reporter'' \<notin> set [''--spec'']"
  by (simp add: ci_defs)

end
